theory Spec2Isabelle
  imports Complex_Main "HOL-Library.Sublist"
begin

section \<open>Strings\<close>

text \<open>
  A Python \<open>str\<close> is modelled as a \<open>string\<close>, a list of 8-bit characters; text beyond
  ASCII stands as its UTF-8 bytes. The character classes below are the ASCII ones. The
  pattern \<open>\d\<close> of \<open>re\<close> also matches the decimal digits of other scripts, and
  \<open>str.lower\<close> also maps capital letters beyond ASCII; no such letter becomes one of the
  letters of \<open>yes\<close> or \<open>no\<close>. The model is exact on ASCII input.
\<close>

definition is_digit :: "char \<Rightarrow> bool" where
  "is_digit c = (c \<in> set ''0123456789'')"

definition is_nonzero_digit :: "char \<Rightarrow> bool" where
  "is_nonzero_digit c = (c \<in> set ''123456789'')"

definition startswith :: "string \<Rightarrow> string \<Rightarrow> bool" where
  "startswith s p = prefix p s"

section \<open>Phone number normalisation (agent.py, lines 47--60)\<close>

text \<open>\<open>re.sub(r"[^\d+]", "", phone)\<close>: every character outside the class is deleted.
  The class holds the digits and the plus sign.\<close>

definition re_sub_strip :: "string \<Rightarrow> string" where
  "re_sub_strip phone = filter (\<lambda>c. is_digit c \<or> c = CHR ''+'') phone"

text \<open>\<open>re.fullmatch(r"\d{10}", phone)\<close>\<close>

definition fullmatch_10_digits :: "string \<Rightarrow> bool" where
  "fullmatch_10_digits s = (length s = 10 \<and> list_all is_digit s)"

text \<open>The shape \<open>\+[1-9]\d{6,14}\<close>: a plus sign, a non-zero digit, 6 to 14 further digits.\<close>

fun e164_shape :: "string \<Rightarrow> bool" where
  "e164_shape (p # d # ds) =
     (p = CHR ''+'' \<and> is_nonzero_digit d \<and> 6 \<le> length ds \<and> length ds \<le> 14 \<and> list_all is_digit ds)"
| "e164_shape _ = False"

text \<open>\<open>re.match(r"^\+[1-9]\d{6,14}$", phone)\<close>: without the MULTILINE flag \<open>$\<close> matches at
  the end of the string and also just before a newline that ends the string.\<close>

definition match_e164 :: "string \<Rightarrow> bool" where
  "match_e164 s =
     (e164_shape s \<or> (s \<noteq> [] \<and> last s = CHR 0x0A \<and> e164_shape (butlast s)))"

definition normalize_phone_number :: "string \<Rightarrow> string option" where
  "normalize_phone_number phone =
     (if phone = [] then None
      else
        let phone1 = re_sub_strip phone;
            phone2 =
              (if fullmatch_10_digits phone1 then ''+91'' @ phone1
               else if \<not> startswith phone1 ''+'' then ''+'' @ phone1
               else phone1)
        in if match_e164 phone2 then Some phone2 else None)"


section \<open>Python values\<close>

text \<open>
  The job metadata and the values of its fields are dynamically typed. \<open>PNone\<close> is
  \<open>None\<close>; a dictionary is an association list read with \<open>map_of\<close>.
\<close>

datatype pyval =
    PNone
  | PBool bool
  | PInt int
  | PFloat real
  | PStr string
  | PList "pyval list"
  | PDict "(string \<times> pyval) list"

text \<open>Truth value testing, as \<open>not x\<close> and \<open>x or y\<close> use it.\<close>

fun truthy :: "pyval \<Rightarrow> bool" where
  "truthy PNone = False"
| "truthy (PBool b) = b"
| "truthy (PInt n) = (n \<noteq> 0)"
| "truthy (PFloat x) = (x \<noteq> 0)"
| "truthy (PStr s) = (s \<noteq> [])"
| "truthy (PList xs) = (xs \<noteq> [])"
| "truthy (PDict d) = (d \<noteq> [])"

text \<open>\<open>range(n)\<close>: the indices \<open>0, ..., n - 1\<close>, none when \<open>n \<le> 0\<close>.\<close>

definition py_range :: "int \<Rightarrow> int list" where
  "py_range n = map int [0..<nat n]"

text \<open>\<open>str.lower\<close>, \<open>str.strip\<close> and the substring test \<open>needle in haystack\<close>.\<close>

definition lower_char :: "char \<Rightarrow> char" where
  "lower_char c =
     (case map_of (zip ''ABCDEFGHIJKLMNOPQRSTUVWXYZ'' ''abcdefghijklmnopqrstuvwxyz'') c of
        Some l \<Rightarrow> l
      | None \<Rightarrow> c)"

definition py_lower :: "string \<Rightarrow> string" where
  "py_lower s = map lower_char s"

definition py_isspace :: "char \<Rightarrow> bool" where
  "py_isspace c =
     (c \<in> {CHR 0x09, CHR 0x0A, CHR 0x0B, CHR 0x0C, CHR 0x0D,
            CHR 0x1C, CHR 0x1D, CHR 0x1E, CHR 0x1F, CHR 0x20})"

definition py_strip :: "string \<Rightarrow> string" where
  "py_strip s = rev (dropWhile py_isspace (rev (dropWhile py_isspace s)))"

fun py_in :: "string \<Rightarrow> string \<Rightarrow> bool" where
  "py_in needle [] = (needle = [])"
| "py_in needle (c # cs) = (prefix needle (c # cs) \<or> py_in needle cs)"

section \<open>Exceptions, events and the state of a call\<close>

text \<open>
  What a call can raise. The first six are subclasses of \<open>Exception\<close>: those the code
  raises, catches or can receive from its collaborators, \<open>OtherException\<close> standing for
  any further subclass. \<open>CancelledError\<close> is \<open>asyncio.CancelledError\<close>, raised at an
  \<open>await\<close> when the task is cancelled; it derives from \<open>BaseException\<close> only, so
  \<open>except Exception\<close> does not catch it.
\<close>

datatype exn =
    TwirpError string string
  | RuntimeError string
  | JSONDecodeError
  | AttributeError
  | TypeError
  | OtherException string
  | CancelledError

text \<open>The class test of \<open>except Exception\<close>.\<close>

fun is_Exception :: "exn \<Rightarrow> bool" where
  "is_Exception CancelledError = False"
| "is_Exception _ = True"

fun is_TwirpError :: "exn \<Rightarrow> bool" where
  "is_TwirpError (TwirpError code msg) = True"
| "is_TwirpError _ = False"

fun is_JSONDecodeError :: "exn \<Rightarrow> bool" where
  "is_JSONDecodeError JSONDecodeError = True"
| "is_JSONDecodeError _ = False"

text \<open>\<open>e.message\<close> of a \<open>TwirpError\<close>; the handler that reads it runs on no other
  exception.\<close>

fun message :: "exn \<Rightarrow> string" where
  "message (TwirpError code msg) = msg"
| "message _ = []"

record CallState =
  customer_name :: "string option"
  phone_number :: "string option"
  is_interested :: bool
  payment_amount :: "string option"
  interaction_count :: int
  call_start_time :: real
  payment_confirmed :: bool

text \<open>\<open>CallState(phone_number=p)\<close>, constructed when the clock reads \<open>now\<close>.\<close>

definition new_CallState :: "string \<Rightarrow> real \<Rightarrow> CallState" where
  "new_CallState p now =
     \<lparr>customer_name = None, phone_number = Some p, is_interested = False,
      payment_amount = None, interaction_count = 0, call_start_time = now,
      payment_confirmed = False\<rparr>"

record CreateSIPParticipantRequest =
  room_name :: string
  sip_trunk_id :: string
  sip_call_to :: string
  participant_identity :: string
  wait_until_answered :: bool

text \<open>
  A log record keeps which message was written and the values formatted into it, not the
  text of the message.
\<close>

datatype log_record =
    Error_HangupAttempt int exn
  | Info_HungUp
  | Error_HangupExhausted
  | Info_AgentStarted
  | Info_AudioReady
  | Info_CustomerSaid string
  | Info_Dialing string int
  | Info_SipConnected
  | Error_SipDialFailed int string
  | Info_RawMetadata pyval
  | Warning_InvalidJSON
  | Error_InvalidPhone
  | Info_StartingCall string
  | Info_VADLoaded
  | Warning_CartesiaFallback exn
  | Info_ParticipantJoined string
  | Info_CallCompleted real int
  | Exception_Unexpected exn

text \<open>What a run does to the outside, in order.\<close>

datatype event =
    Log log_record
  | Sleep int
  | GetJobContext
  | DeleteRoom string
  | CreateSIPParticipant CreateSIPParticipantRequest
  | WaitForConnection
  | Say string
  | Listen int
  | Connect
  | LoadVAD
  | CreateTTS bool
  | CreateLLM
  | CreateSTT
  | CreateSession
  | StartSessionTask
  | WaitForParticipant string
  | AwaitSessionTask
  | Shutdown

text \<open>
  The state threaded through every operation: the events so far and the \<open>CallState\<close> of
  the session (\<open>session.userdata\<close>), which \<open>entrypoint\<close> sets when it builds the session.
\<close>

record world =
  events :: "event list"
  userdata :: CallState

type_synonym 'a action = "world \<Rightarrow> (exn + 'a) \<times> world"

definition returns :: "'a \<Rightarrow> 'a action" where
  "returns x w = (Inr x, w)"

definition raises :: "exn \<Rightarrow> 'a action" where
  "raises e w = (Inl e, w)"

definition lift :: "exn + 'a \<Rightarrow> 'a action" where
  "lift r w = (r, w)"

definition bind_action :: "'a action \<Rightarrow> ('a \<Rightarrow> 'b action) \<Rightarrow> 'b action" where
  "bind_action m f w = (case m w of (Inl e, w') \<Rightarrow> (Inl e, w') | (Inr x, w') \<Rightarrow> f x w')"

text \<open>\<open>try: m  except E as e: handler\<close>, where \<open>handles\<close> tells the exceptions of class
  \<open>E\<close>.\<close>

definition try_except :: "'a action \<Rightarrow> (exn \<Rightarrow> bool) \<Rightarrow> (exn \<Rightarrow> 'a action) \<Rightarrow> 'a action" where
  "try_except m handles handler w =
     (case m w of
        (Inl e, w') \<Rightarrow> if handles e then handler e w' else (Inl e, w')
      | (Inr x, w') \<Rightarrow> (Inr x, w'))"

definition emit :: "event \<Rightarrow> unit action" where
  "emit ev w = (Inr (), w\<lparr>events := events w @ [ev]\<rparr>)"

text \<open>A call to a collaborator: the call is recorded, its outcome is the collaborator's.\<close>

definition external :: "event \<Rightarrow> exn + 'a \<Rightarrow> 'a action" where
  "external ev outcome w = (outcome, w\<lparr>events := events w @ [ev]\<rparr>)"

definition log :: "log_record \<Rightarrow> unit action" where
  "log r = emit (Log r)"

definition sleep :: "int \<Rightarrow> unit action" where
  "sleep d = emit (Sleep d)"

text \<open>The outcome of a loop body: the function returns, or the loop goes on.\<close>

datatype flow = Return | Continue

section \<open>Hanging up (agent.py, lines 75--86)\<close>

text \<open>
  The collaborators of the hangup, by attempt index: \<open>get_job_context()\<close> gives the job
  context (of which the room name is read) or raises; the awaited \<open>delete_room\<close>
  succeeds or raises. A backoff sleep is taken to complete.
\<close>

record room_service =
  get_job_context :: "int \<Rightarrow> exn + string"
  delete_room :: "int \<Rightarrow> string \<Rightarrow> exn + unit"

fun hangup_loop :: "room_service \<Rightarrow> int \<Rightarrow> int list \<Rightarrow> unit action" where
  "hangup_loop svc max_retries [] = log Error_HangupExhausted"
| "hangup_loop svc max_retries (i # rest) =
     bind_action
       (try_except
          (bind_action (external GetJobContext (get_job_context svc i)) (\<lambda>room.
           bind_action (external (DeleteRoom room) (delete_room svc i room)) (\<lambda>_.
           bind_action (log Info_HungUp) (\<lambda>_.
           returns Return))))
          is_Exception
          (\<lambda>e.
           bind_action (log (Error_HangupAttempt (i + 1) e)) (\<lambda>_.
           bind_action (if i < max_retries - 1 then sleep (2 ^ nat i) else returns ()) (\<lambda>_.
           returns Continue))))
       (\<lambda>fl. case fl of Return \<Rightarrow> returns () | Continue \<Rightarrow> hangup_loop svc max_retries rest)"

definition hangup_call_with_retry :: "room_service \<Rightarrow> int \<Rightarrow> unit action" where
  "hangup_call_with_retry svc max_retries = hangup_loop svc max_retries (py_range max_retries)"

section \<open>The dialogue (agent.py, lines 113--141)\<close>

text \<open>
  The dialogue engine behind the session: \<open>wait_for_connection\<close> and \<open>say\<close> return
  nothing, \<open>listen(timeout)\<close> returns a response with its transcribed text, or \<open>None\<close>
  when nothing was heard in time. The three are taken to return: \<open>on_start\<close> has no
  handler for an exception of theirs.
\<close>

text \<open>The field \<open>text\<close> of a response is \<open>response_text\<close> here.\<close>

record response =
  response_text :: string

record dialogue_engine =
  listen :: "int \<Rightarrow> response option"

definition rsquo :: string where
  "rsquo = [CHR 0xE2, CHR 0x80, CHR 0x99]"

definition greeting :: string where
  "greeting = ''Hello! This is Emily from SecureCard Financial Services. ''
     @ ''I'm calling to remind you about your upcoming payment. ''
     @ ''Can I confirm that I'm speaking to the account holder?''"

definition reply_yes :: string where
  "reply_yes = ''Great! Your balance due is $250. Would you like to make the payment now?''"

definition reply_no :: string where
  "reply_no = ''No problem. I'' @ rsquo @ ''ll make a note that the account holder isn''
     @ rsquo @ ''t available right now.''"

definition reply_repeat :: string where
  "reply_repeat = ''I didn't quite catch that. Could you please repeat?''"

definition reply_no_response :: string where
  "reply_no_response = ''I didn'' @ rsquo @ ''t hear a response. Let'' @ rsquo
     @ ''s try again another time.''"

text \<open>Lines 114--124: the greeting and the count of interactions.\<close>

definition on_start_greet :: "unit action" where
  "on_start_greet =
     bind_action (log Info_AgentStarted) (\<lambda>_.
     bind_action (emit WaitForConnection) (\<lambda>_.
     bind_action (log Info_AudioReady) (\<lambda>_.
     bind_action (emit (Say greeting)) (\<lambda>_.
     (\<lambda>w. (Inr (), w\<lparr>userdata := (userdata w)\<lparr>interaction_count :=
                interaction_count (userdata w) + 1\<rparr>\<rparr>))))))"

text \<open>Lines 126--138: listening and the reply.\<close>

definition on_start_respond :: "dialogue_engine \<Rightarrow> unit action" where
  "on_start_respond eng =
     bind_action (external (Listen 10) (Inr (listen eng 10))) (\<lambda>user_response.
     if user_response \<noteq> None \<and> response_text (the user_response) \<noteq> [] then
       (let reply = py_lower (response_text (the user_response)) in
        bind_action (log (Info_CustomerSaid reply)) (\<lambda>_.
        if py_in ''yes'' reply then emit (Say reply_yes)
        else if py_in ''no'' reply then emit (Say reply_no)
        else emit (Say reply_repeat)))
     else emit (Say reply_no_response))"

definition on_start :: "dialogue_engine \<Rightarrow> room_service \<Rightarrow> unit action" where
  "on_start eng svc =
     bind_action on_start_greet (\<lambda>_.
     bind_action (on_start_respond eng) (\<lambda>_.
     bind_action (sleep 2) (\<lambda>_.
     hangup_call_with_retry svc 3)))"

section \<open>Dialling (agent.py, lines 144--163)\<close>

text \<open>
  The job context \<open>ctx\<close>: the job's metadata, the room's name, and the outcomes of the
  calls made through it. \<open>create_sip_participant\<close> is read by attempt index.
\<close>

record job_context =
  job_metadata :: pyval
  ctx_room_name :: string
  create_sip_participant :: "int \<Rightarrow> CreateSIPParticipantRequest \<Rightarrow> exn + unit"
  connect :: "exn + unit"
  wait_for_participant :: "string \<Rightarrow> exn + string"

text \<open>Lines 149--155: the request, the same at every attempt.\<close>

definition sip_request :: "string \<Rightarrow> job_context \<Rightarrow> string \<Rightarrow> CreateSIPParticipantRequest" where
  "sip_request trunk ctx phone =
     \<lparr>room_name = ctx_room_name ctx, sip_trunk_id = trunk, sip_call_to = phone,
      participant_identity = phone, wait_until_answered = True\<rparr>"

fun dial_loop :: "string \<Rightarrow> job_context \<Rightarrow> string \<Rightarrow> int \<Rightarrow> int list \<Rightarrow> unit action" where
  "dial_loop trunk ctx phone max_retries [] =
     raises (RuntimeError ''Failed to connect SIP participant after retries.'')"
| "dial_loop trunk ctx phone max_retries (i # rest) =
     bind_action
       (try_except
          (bind_action (log (Info_Dialing phone (i + 1))) (\<lambda>_.
           bind_action
             (external (CreateSIPParticipant (sip_request trunk ctx phone))
                (create_sip_participant ctx i (sip_request trunk ctx phone))) (\<lambda>_.
           bind_action (log Info_SipConnected) (\<lambda>_.
           returns Return))))
          is_TwirpError
          (\<lambda>e.
           bind_action (log (Error_SipDialFailed (i + 1) (message e))) (\<lambda>_.
           bind_action (if i < max_retries - 1 then sleep (2 ^ nat i) else returns ()) (\<lambda>_.
           returns Continue))))
       (\<lambda>fl. case fl of Return \<Rightarrow> returns ()
              | Continue \<Rightarrow> dial_loop trunk ctx phone max_retries rest)"

text \<open>The first argument is the module constant \<open>OUTBOUND_TRUNK_ID\<close>, read from the
  environment when the module is loaded.\<close>

definition create_sip_participant_with_retry ::
    "string \<Rightarrow> job_context \<Rightarrow> string \<Rightarrow> int \<Rightarrow> unit action" where
  "create_sip_participant_with_retry trunk ctx phone max_retries =
     dial_loop trunk ctx phone max_retries (py_range max_retries)"

section \<open>The entry point (agent.py, lines 166--243)\<close>

text \<open>
  The libraries the entry point calls: the JSON parser, the constructors of the audio and
  language components, the session, and the clock. \<open>json.loads\<close> computes without
  awaiting: it gives a value, raises \<open>JSONDecodeError\<close> on malformed text
  (\<open>Malformed\<close>), or raises another subclass of \<open>Exception\<close> (\<open>Failed\<close>). \<open>session_task\<close> is what awaiting the
  session task gives: its outcome and the \<open>CallState\<close> the session leaves behind. The
  session task runs beside the entry point; its own events are not part of this trace.
\<close>

datatype json_outcome = Parsed pyval | Malformed | Failed string

record libraries =
  json_loads :: "string \<Rightarrow> json_outcome"
  vad_load :: "exn + unit"
  tts_create :: "bool \<Rightarrow> exn + unit"
  llm_create :: "exn + unit"
  stt_create :: "exn + unit"
  session_create :: "exn + unit"
  session_start :: "exn + unit"
  session_task :: "CallState \<Rightarrow> (exn + unit) \<times> CallState"
  time_time :: "nat \<Rightarrow> real"

text \<open>\<open>d.get(key)\<close>: only a dictionary has the method.\<close>

fun dict_get :: "pyval \<Rightarrow> string \<Rightarrow> exn + pyval" where
  "dict_get (PDict d) key = Inr (case map_of d key of None \<Rightarrow> PNone | Some v \<Rightarrow> v)"
| "dict_get _ key = Inl AttributeError"

text \<open>Lines 172--179.\<close>

definition parse_metadata :: "libraries \<Rightarrow> pyval \<Rightarrow> pyval action" where
  "parse_metadata lib metadata_raw =
     (case metadata_raw of
        PStr s \<Rightarrow>
          if py_strip s \<noteq> [] then
            try_except
              (case json_loads lib s of
                 Parsed v \<Rightarrow> returns v
               | Malformed \<Rightarrow> raises JSONDecodeError
               | Failed what \<Rightarrow> raises (OtherException what))
              is_JSONDecodeError
              (\<lambda>e. bind_action (log Warning_InvalidJSON) (\<lambda>_. returns (PDict [])))
          else returns (PDict [])
      | PDict d \<Rightarrow> returns (PDict d)
      | _ \<Rightarrow> returns (PDict []))"

text \<open>Lines 182--187: \<open>a or b\<close> is \<open>a\<close> when \<open>a\<close> is true, else \<open>b\<close>, which is evaluated
  only then.\<close>

definition lookup_phone :: "pyval \<Rightarrow> pyval action" where
  "lookup_phone dial_info =
     bind_action (lift (dict_get dial_info ''phone_number'')) (\<lambda>a.
     if truthy a then returns a else
     bind_action (lift (dict_get dial_info ''phoneNumber'')) (\<lambda>b.
     if truthy b then returns b else
     bind_action (lift (dict_get dial_info ''phone'')) (\<lambda>c.
     if truthy c then returns c else
     lift (dict_get dial_info ''number''))))"

text \<open>\<open>normalize_phone_number\<close> called with whatever the metadata held: a false value
  leaves at the first line, and \<open>re.sub\<close> raises \<open>TypeError\<close> on what is not a string.\<close>

definition normalize_phone_number_dyn :: "pyval \<Rightarrow> exn + string option" where
  "normalize_phone_number_dyn phone =
     (if \<not> truthy phone then Inr None
      else case phone of PStr s \<Rightarrow> Inr (normalize_phone_number s) | _ \<Rightarrow> Inl TypeError)"

text \<open>Lines 168--189: from the metadata to the normalised phone number.\<close>

definition resolve_phone :: "libraries \<Rightarrow> job_context \<Rightarrow> string option action" where
  "resolve_phone lib ctx =
     bind_action (log (Info_RawMetadata (job_metadata ctx))) (\<lambda>_.
     bind_action (parse_metadata lib (job_metadata ctx)) (\<lambda>dial_info.
     bind_action (lookup_phone dial_info) (\<lambda>phone_number.
     lift (normalize_phone_number_dyn phone_number))))"

text \<open>Lines 195--239: the call itself, for a normalised phone number. The first log line
  also shows the number, passed through \<open>sanitize_log_data\<close>; the record keeps the room.\<close>

definition run_call :: "string \<Rightarrow> libraries \<Rightarrow> job_context \<Rightarrow> string \<Rightarrow> unit action" where
  "run_call trunk lib ctx phone =
     bind_action (log (Info_StartingCall (ctx_room_name ctx))) (\<lambda>_.
     bind_action (external Connect (connect ctx)) (\<lambda>_.
     bind_action (external LoadVAD (vad_load lib)) (\<lambda>_.
     bind_action (log Info_VADLoaded) (\<lambda>_.
     bind_action
       (try_except (external (CreateTTS True) (tts_create lib True)) is_Exception
          (\<lambda>e. bind_action (log (Warning_CartesiaFallback e)) (\<lambda>_.
                external (CreateTTS False) (tts_create lib False)))) (\<lambda>_.
     bind_action (external CreateLLM (llm_create lib)) (\<lambda>_.
     bind_action (external CreateSTT (stt_create lib)) (\<lambda>_.
     bind_action (external CreateSession (session_create lib)) (\<lambda>_.
     bind_action (\<lambda>w. (Inr (), w\<lparr>userdata := new_CallState phone (time_time lib 0)\<rparr>)) (\<lambda>_.
     bind_action (external StartSessionTask (session_start lib)) (\<lambda>_.
     bind_action (create_sip_participant_with_retry trunk ctx phone 3) (\<lambda>_.
     bind_action (external (WaitForParticipant phone) (wait_for_participant ctx phone)) (\<lambda>participant.
     bind_action (log (Info_ParticipantJoined participant)) (\<lambda>_.
     bind_action
       (\<lambda>w. case session_task lib (userdata w) of
               (r, u) \<Rightarrow> (r, w\<lparr>events := events w @ [AwaitSessionTask], userdata := u\<rparr>)) (\<lambda>_.
     (\<lambda>w. log (Info_CallCompleted (time_time lib 1 - call_start_time (userdata w))
                (interaction_count (userdata w))) w)))))))))))))))"

definition entrypoint :: "string \<Rightarrow> libraries \<Rightarrow> job_context \<Rightarrow> unit action" where
  "entrypoint trunk lib ctx =
     try_except
       (bind_action (resolve_phone lib ctx) (\<lambda>phone_number.
        if phone_number = None \<or> the phone_number = [] then log Error_InvalidPhone
        else run_call trunk lib ctx (the phone_number)))
       is_Exception
       (\<lambda>e. bind_action (log (Exception_Unexpected e)) (\<lambda>_. emit Shutdown))"

section \<open>Reading a trace\<close>

text \<open>The requests of the SIP participant-creation calls, the delays slept and the texts
  spoken, each in the order of the trace.\<close>

fun sip_requests :: "event list \<Rightarrow> CreateSIPParticipantRequest list" where
  "sip_requests [] = []"
| "sip_requests (CreateSIPParticipant r # es) = r # sip_requests es"
| "sip_requests (_ # es) = sip_requests es"

fun sleeps :: "event list \<Rightarrow> int list" where
  "sleeps [] = []"
| "sleeps (Sleep d # es) = d # sleeps es"
| "sleeps (_ # es) = sleeps es"

fun utterances :: "event list \<Rightarrow> string list" where
  "utterances [] = []"
| "utterances (Say t # es) = t # utterances es"
| "utterances (_ # es) = utterances es"


text \<open>An outcome that is an exception of the given class.\<close>

fun fails_with :: "(exn \<Rightarrow> bool) \<Rightarrow> exn + 'a \<Rightarrow> bool" where
  "fails_with cls (Inl e) = cls e"
| "fails_with cls (Inr x) = False"

fun listen_timeouts :: "event list \<Rightarrow> int list" where
  "listen_timeouts [] = []"
| "listen_timeouts (Listen t # es) = t # listen_timeouts es"
| "listen_timeouts (_ # es) = listen_timeouts es"

text \<open>The events of dial attempt \<open>i\<close> when the call raises a \<open>TwirpError\<close> there: the
  attempt is logged, the call is made, the failure is logged with the error's message, and
  every attempt but the last is followed by the backoff.\<close>

definition failed_attempt :: "string \<Rightarrow> job_context \<Rightarrow> string \<Rightarrow> int \<Rightarrow> int \<Rightarrow> event list" where
  "failed_attempt trunk ctx phone max_retries i =
     [Log (Info_Dialing phone (i + 1)),
      CreateSIPParticipant (sip_request trunk ctx phone),
      Log (Error_SipDialFailed (i + 1)
        (case create_sip_participant ctx i (sip_request trunk ctx phone) of
           Inl e \<Rightarrow> message e | Inr u \<Rightarrow> []))]
     @ (if i < max_retries - 1 then [Sleep (2 ^ nat i)] else [])"

text \<open>The text spoken after listening, by what \<open>listen\<close> gave.\<close>

definition branch_reply :: "response option \<Rightarrow> string" where
  "branch_reply r =
     (if r \<noteq> None \<and> response_text (the r) \<noteq> [] then
        (if py_in ''yes'' (py_lower (response_text (the r))) then reply_yes
         else if py_in ''no'' (py_lower (response_text (the r))) then reply_no
         else reply_repeat)
      else reply_no_response)"

section \<open>Example runs\<close>

definition example_world :: world where
  "example_world = \<lparr>events = [], userdata = new_CallState ''+919876543210'' 0\<rparr>"

definition svc_ok :: room_service where
  "svc_ok = \<lparr>get_job_context = (\<lambda>i. Inr ''payment-room''), delete_room = (\<lambda>i room. Inr ())\<rparr>"

definition svc_failing :: room_service where
  "svc_failing =
     \<lparr>get_job_context = (\<lambda>i. Inr ''payment-room''),
      delete_room = (\<lambda>i room. Inl (OtherException ''room service unreachable''))\<rparr>"


definition ctx_with :: "pyval \<Rightarrow> (int \<Rightarrow> exn + unit) \<Rightarrow> job_context" where
  "ctx_with metadata sip =
     \<lparr>job_metadata = metadata, ctx_room_name = ''payment-room'',
      create_sip_participant = (\<lambda>i req. sip i), connect = Inr (),
      wait_for_participant = (\<lambda>identity. Inr identity)\<rparr>"

definition example_metadata :: pyval where
  "example_metadata = PDict [(''phoneNumber'', PStr ''9876543210'')]"

definition ctx_busy :: job_context where
  "ctx_busy = ctx_with example_metadata (\<lambda>i. Inl (TwirpError ''unavailable'' ''busy''))"

definition ctx_answers_second :: job_context where
  "ctx_answers_second =
     ctx_with example_metadata
       (\<lambda>i. if i = 1 then Inr () else Inl (TwirpError ''unavailable'' ''busy''))"

definition ctx_crash_last :: job_context where
  "ctx_crash_last =
     ctx_with example_metadata
       (\<lambda>i. if i = 2 then Inl (OtherException ''connection reset'')
            else Inl (TwirpError ''unavailable'' ''busy''))"

definition ctx_crash_first :: job_context where
  "ctx_crash_first = ctx_with example_metadata (\<lambda>i. Inl (OtherException ''connection reset''))"

definition ctx_no_phone :: job_context where
  "ctx_no_phone = ctx_with (PStr ''{}'') (\<lambda>i. Inr ())"

definition ctx_short_phone :: job_context where
  "ctx_short_phone = ctx_with (PDict [(''phone'', PStr ''123'')]) (\<lambda>i. Inr ())"

definition ctx_list_metadata :: job_context where
  "ctx_list_metadata = ctx_with (PStr ''[1]'') (\<lambda>i. Inr ())"

definition engine_hearing :: "string \<Rightarrow> dialogue_engine" where
  "engine_hearing t = \<lparr>listen = (\<lambda>timeout. Some \<lparr>response_text = t\<rparr>)\<rparr>"

definition engine_silent :: dialogue_engine where
  "engine_silent = \<lparr>listen = (\<lambda>timeout. None)\<rparr>"

definition example_libraries :: libraries where
  "example_libraries =
     \<lparr>json_loads =
        (\<lambda>s. if s = ''{}'' then Parsed (PDict [])
             else if s = ''[1]'' then Parsed (PList [PInt 1])
             else Malformed),
      vad_load = Inr (), tts_create = (\<lambda>voice. Inr ()), llm_create = Inr (),
      stt_create = Inr (), session_create = Inr (), session_start = Inr (),
      session_task = (\<lambda>u. (Inr (), u)), time_time = (\<lambda>k. 0)\<rparr>"

section \<open>Properties of the phone number normaliser\<close>

lemma plus_not_digit: "\<not> is_digit (CHR ''+'')"
  by (simp add: is_digit_def)

lemma nonzero_is_digit: "is_nonzero_digit c \<Longrightarrow> is_digit c"
  by (auto simp: is_nonzero_digit_def is_digit_def)

lemma strip_idem: "re_sub_strip (re_sub_strip s) = re_sub_strip s"
  by (simp add: re_sub_strip_def)

lemma strip_no_plus: "CHR ''+'' \<notin> set s \<Longrightarrow> re_sub_strip s = filter is_digit s"
  unfolding re_sub_strip_def by (rule filter_cong) auto

lemma normalize_empty_strip: "re_sub_strip s = [] \<Longrightarrow> normalize_phone_number s = None"
  by (simp add: normalize_phone_number_def fullmatch_10_digits_def startswith_def match_e164_def)

lemma normalize_strip: "normalize_phone_number (re_sub_strip s) = normalize_phone_number s"
proof (cases "re_sub_strip s = []")
  case True
  then show ?thesis
    by (simp add: normalize_empty_strip) (simp add: normalize_phone_number_def)
next
  case False
  then have "s \<noteq> []" by (auto simp: re_sub_strip_def)
  with False show ?thesis by (simp add: normalize_phone_number_def strip_idem)
qed

lemma e164_shape_tail_digits: "e164_shape (a # rest) \<Longrightarrow> list_all is_digit rest"
  by (cases rest) (auto simp: is_nonzero_digit_def is_digit_def)

lemma match_e164_tail: "match_e164 (a # rest) \<Longrightarrow> CHR ''+'' \<notin> set rest"
proof
  assume m: "match_e164 (a # rest)" and p: "CHR ''+'' \<in> set rest"
  from m consider "e164_shape (a # rest)"
    | "last (a # rest) = CHR 0x0A" "e164_shape (butlast (a # rest))"
    by (auto simp: match_e164_def)
  then show False
  proof cases
    case 1
    then have "list_all is_digit rest" by (rule e164_shape_tail_digits)
    with p plus_not_digit show False by (auto simp: list_all_iff)
  next
    case 2
    from p have ne: "rest \<noteq> []" by auto
    then obtain bs l where r: "rest = bs @ [l]" by (metis rev_exhaust)
    with 2 have "l = CHR 0x0A" and "e164_shape (a # bs)" by simp_all
    then have "list_all is_digit bs" by (simp add: e164_shape_tail_digits)
    with r \<open>l = CHR 0x0A\<close> have "\<forall>c\<in>set rest. is_digit c \<or> c = CHR 0x0A"
      by (auto simp: list_all_iff)
    with p plus_not_digit show False by auto
  qed
qed

lemma stray_plus_rejected:
  assumes "re_sub_strip s = a # rest" and "CHR ''+'' \<in> set rest"
  shows "normalize_phone_number s = None"
proof -
  from assms have ne: "s \<noteq> []" by (auto simp: re_sub_strip_def)
  have nf: "\<not> fullmatch_10_digits (a # rest)" using assms(2) plus_not_digit
    by (auto simp: fullmatch_10_digits_def list_all_iff)
  have "\<not> match_e164 (a # rest)" using assms(2) match_e164_tail by blast
  moreover have "\<not> match_e164 (''+'' @ a # rest)"
    using assms(2) match_e164_tail[of "CHR ''+''" "a # rest"] by auto
  ultimately show ?thesis using ne nf assms(1)
    by (simp add: normalize_phone_number_def Let_def)
qed

lemma e164_fixpoint: "e164_shape s \<Longrightarrow> normalize_phone_number s = Some s"
proof -
  assume sh: "e164_shape s"
  then obtain d ds where s: "s = CHR ''+'' # d # ds" and d: "is_nonzero_digit d"
    and ds: "list_all is_digit ds"
    by (cases s rule: e164_shape.cases) auto
  have "re_sub_strip s = s" using s d ds nonzero_is_digit
    by (auto simp add: re_sub_strip_def list_all_iff)
  moreover have "\<not> fullmatch_10_digits s" using s plus_not_digit
    by (simp add: fullmatch_10_digits_def)
  moreover have "startswith s ''+''" using s by (simp add: startswith_def)
  moreover have "match_e164 s" using sh by (simp add: match_e164_def)
  ultimately show ?thesis using s by (simp add: normalize_phone_number_def)
qed

text \<open>
  Claim C6. For every string \<open>D\<close> of exactly ten digits, \<open>normalize_phone_number D\<close>
  returns \<open>"+91" + D\<close>.
\<close>

theorem normalize_ten_digits:
  assumes len: "length D = 10" and dig: "list_all is_digit D"
  shows "normalize_phone_number D = Some (''+91'' @ D)"
proof -
  from len have ne: "D \<noteq> []" by auto
  from dig have "re_sub_strip D = D" by (simp add: re_sub_strip_def list_all_iff)
  moreover have "fullmatch_10_digits D" using len dig by (simp add: fullmatch_10_digits_def)
  moreover have "match_e164 (''+91'' @ D)" using len dig
    by (simp add: match_e164_def is_nonzero_digit_def is_digit_def)
  ultimately show ?thesis using ne by (simp add: normalize_phone_number_def)
qed

theorem normalize_ten_digits_witness:
  "length ''9876543210'' = 10 \<and> list_all is_digit ''9876543210''
   \<and> normalize_phone_number ''9876543210'' = Some ''+919876543210''"
  using normalize_ten_digits [of "''9876543210''"] by (simp add: is_digit_def)

text \<open>
  Claim C7, as the code has it. The first step deletes every character that is neither a
  digit nor a plus sign, so every plus sign stays wherever it stands. The result is that of
  the input with all other characters removed; for an input without any plus sign it is
  that of the input with all non-digit characters removed; and an input that keeps a plus
  sign after its first kept character is rejected.
\<close>

theorem normalize_strips_non_digit_non_plus:
  "normalize_phone_number s =
     normalize_phone_number (filter (\<lambda>c. is_digit c \<or> c = CHR ''+'') s)
   \<and> (CHR ''+'' \<notin> set s \<longrightarrow>
        normalize_phone_number s = normalize_phone_number (filter is_digit s))
   \<and> (\<forall>a rest. filter (\<lambda>c. is_digit c \<or> c = CHR ''+'') s = a # rest \<and> CHR ''+'' \<in> set rest
        \<longrightarrow> normalize_phone_number s = None)"
  using normalize_strip [of s] strip_no_plus [of s] stray_plus_rejected [of s]
  by (auto simp: re_sub_strip_def)

theorem normalize_strips_non_digit_non_plus_witness:
  "CHR ''+'' \<notin> set ''98765 43210''
   \<and> normalize_phone_number ''98765 43210'' = normalize_phone_number (filter is_digit ''98765 43210'')
   \<and> filter (\<lambda>c. is_digit c \<or> c = CHR ''+'') ''9876543210+'' = CHR ''9'' # ''876543210+''
   \<and> CHR ''+'' \<in> set ''876543210+''
   \<and> normalize_phone_number ''9876543210+'' = None"
  using normalize_strips_non_digit_non_plus [of "''98765 43210''"]
    normalize_strips_non_digit_non_plus [of "''9876543210+''"]
  by (simp add: is_digit_def)

text \<open>
  The claim as the specification words it fails: a ten-digit number followed by a stray
  plus sign keeps that plus sign and is rejected, while the same input with all non-digit
  characters removed is accepted.
\<close>

theorem stray_plus_counterexample:
  "re_sub_strip ''9876543210+'' = ''9876543210+''
   \<and> normalize_phone_number ''9876543210+'' = None
   \<and> normalize_phone_number (filter is_digit ''9876543210+'') = Some ''+919876543210''"
  by (simp add: normalize_phone_number_def re_sub_strip_def is_digit_def
      fullmatch_10_digits_def startswith_def match_e164_def is_nonzero_digit_def)

text \<open>
  Claim C8. On every string that starts with a plus sign and has the E.164 shape the
  normaliser is idempotent: normalising the result again gives the same result. (A rejected
  input stays rejected: \<open>normalize_phone_number(None)\<close> is \<open>None\<close>, which is what
  \<open>Option.bind\<close> computes.)
\<close>

theorem normalize_idempotent_e164:
  assumes "e164_shape s"
  shows "Option.bind (normalize_phone_number s) normalize_phone_number = normalize_phone_number s"
  using assms by (simp add: e164_fixpoint)

theorem normalize_idempotent_e164_witness:
  "e164_shape ''+14155552671''
   \<and> Option.bind (normalize_phone_number ''+14155552671'') normalize_phone_number
       = normalize_phone_number ''+14155552671''"
  using normalize_idempotent_e164 [of "''+14155552671''"]
  by (simp add: is_digit_def is_nonzero_digit_def)

section \<open>Lemmas about the operations\<close>

lemmas action_defs = bind_action_def try_except_def external_def emit_def log_def sleep_def
  returns_def raises_def lift_def

lemma py_range_3: "py_range 3 = [0, 1, 2]"
  by (simp add: py_range_def upt_rec)

lemma dial_loop_step:
  "dial_loop trunk ctx phone n (i # rest) w =
    (case create_sip_participant ctx i (sip_request trunk ctx phone) of
       Inr u \<Rightarrow> (Inr (), w\<lparr>events := events w @
           [Log (Info_Dialing phone (i + 1)), CreateSIPParticipant (sip_request trunk ctx phone),
            Log Info_SipConnected]\<rparr>)
     | Inl e \<Rightarrow>
        if is_TwirpError e then
          dial_loop trunk ctx phone n rest
            (w\<lparr>events := events w @
               [Log (Info_Dialing phone (i + 1)), CreateSIPParticipant (sip_request trunk ctx phone),
                Log (Error_SipDialFailed (i + 1) (message e))]
               @ (if i < n - 1 then [Sleep (2 ^ nat i)] else [])\<rparr>)
        else (Inl e, w\<lparr>events := events w @
           [Log (Info_Dialing phone (i + 1)), CreateSIPParticipant (sip_request trunk ctx phone)]\<rparr>))"
  by (simp add: action_defs split: sum.splits)

lemma dial_loop_all_fail:
  "\<forall>i\<in>set idx. fails_with is_TwirpError (create_sip_participant ctx i (sip_request trunk ctx phone))
   \<Longrightarrow> dial_loop trunk ctx phone n idx w =
       (Inl (RuntimeError ''Failed to connect SIP participant after retries.''),
        w\<lparr>events := events w @ concat (map (failed_attempt trunk ctx phone n) idx)\<rparr>)"
proof (induction idx arbitrary: w)
  case Nil
  show ?case by (simp add: action_defs)
next
  case (Cons i rest)
  from Cons.prems obtain e where e: "create_sip_participant ctx i (sip_request trunk ctx phone) = Inl e" "is_TwirpError e"
    by (cases "create_sip_participant ctx i (sip_request trunk ctx phone)") auto
  from Cons.prems have "\<forall>i\<in>set rest. fails_with is_TwirpError (create_sip_participant ctx i (sip_request trunk ctx phone))" by simp
  note IH = Cons.IH[OF this]
  show ?case unfolding dial_loop_step by (simp add: e IH failed_attempt_def)
qed

lemma dial_loop_prefix:
  "\<forall>i\<in>set pre. fails_with is_TwirpError (create_sip_participant ctx i (sip_request trunk ctx phone))
   \<Longrightarrow> dial_loop trunk ctx phone n (pre @ rest) w =
       dial_loop trunk ctx phone n rest (w\<lparr>events := events w @ concat (map (failed_attempt trunk ctx phone n) pre)\<rparr>)"
proof (induction pre arbitrary: w)
  case Nil
  show ?case by simp
next
  case (Cons i pre)
  from Cons.prems obtain e where e: "create_sip_participant ctx i (sip_request trunk ctx phone) = Inl e" "is_TwirpError e"
    by (cases "create_sip_participant ctx i (sip_request trunk ctx phone)") auto
  from Cons.prems have "\<forall>i\<in>set pre. fails_with is_TwirpError (create_sip_participant ctx i (sip_request trunk ctx phone))" by simp
  note IH = Cons.IH[OF this]
  show ?case unfolding append_Cons dial_loop_step by (simp add: e IH failed_attempt_def)
qed

lemma py_range_split: "0 \<le> k \<Longrightarrow> k < n \<Longrightarrow> py_range n = py_range k @ k # map int [Suc (nat k)..<nat n]"
proof -
  assume k: "0 \<le> k" "k < n"
  then have "nat k < nat n" by simp
  then have "[0..<nat n] = [0..<nat k] @ nat k # [Suc (nat k)..<nat n]"
    by (metis upt_conv_Cons upt_add_eq_append le_add_diff_inverse less_imp_le_nat zero_le)
  then show ?thesis using k by (simp add: py_range_def)
qed

lemma sip_requests_append: "sip_requests (xs @ ys) = sip_requests xs @ sip_requests ys"
  by (induction xs rule: sip_requests.induct) auto

lemma sleeps_append: "sleeps (xs @ ys) = sleeps xs @ sleeps ys"
  by (induction xs rule: sleeps.induct) auto

lemma sip_requests_failed:
  "sip_requests (concat (map (failed_attempt trunk ctx phone n) idx)) = replicate (length idx) (sip_request trunk ctx phone)"
  by (induction idx) (auto simp: failed_attempt_def sip_requests_append)

lemma sleeps_failed:
  "sleeps (concat (map (failed_attempt trunk ctx phone n) idx)) = map (\<lambda>i. 2 ^ nat i) (filter (\<lambda>i. i < n - 1) idx)"
  by (induction idx) (auto simp: failed_attempt_def sleeps_append)

lemma filter_py_range: "filter (\<lambda>i. i < n - 1) (py_range n) = py_range (n - 1)"
proof -
  have "filter (\<lambda>i. i < n - 1) (map int [0..<nat n]) = map int (filter (\<lambda>j. int j < n - 1) [0..<nat n])"
    by (simp add: filter_map comp_def)
  also have "filter (\<lambda>j. int j < n - 1) [0..<nat n] = [0..<nat (n - 1)]"
  proof (cases "n \<le> 0")
    case True then show ?thesis by simp
  next
    case False
    then have "nat n = nat (n - 1) + 1" by simp
    moreover have "filter (\<lambda>j. int j < n - 1) [0..<nat (n - 1)] = [0..<nat (n - 1)]"
      by (rule filter_True) auto
    ultimately show ?thesis using False by simp
  qed
  finally show ?thesis by (simp add: py_range_def)
qed

lemma hangup_loop_step:
  "hangup_loop svc n (i # rest) w =
    (case get_job_context svc i of
       Inl e \<Rightarrow>
         if is_Exception e then
           hangup_loop svc n rest
             (w\<lparr>events := events w @ [GetJobContext, Log (Error_HangupAttempt (i + 1) e)]
                 @ (if i < n - 1 then [Sleep (2 ^ nat i)] else [])\<rparr>)
         else (Inl e, w\<lparr>events := events w @ [GetJobContext]\<rparr>)
     | Inr room \<Rightarrow>
        (case delete_room svc i room of
           Inl e \<Rightarrow>
             if is_Exception e then
               hangup_loop svc n rest
                 (w\<lparr>events := events w @
                    [GetJobContext, DeleteRoom room, Log (Error_HangupAttempt (i + 1) e)]
                    @ (if i < n - 1 then [Sleep (2 ^ nat i)] else [])\<rparr>)
             else (Inl e, w\<lparr>events := events w @ [GetJobContext, DeleteRoom room]\<rparr>)
         | Inr u \<Rightarrow>
             (Inr (), w\<lparr>events := events w @
                [GetJobContext, DeleteRoom room, Log Info_HungUp]\<rparr>)))"
  by (simp add: action_defs split: sum.splits)



lemma utterances_append: "utterances (xs @ ys) = utterances xs @ utterances ys"
  by (induction xs rule: utterances.induct) auto

lemma listen_timeouts_append: "listen_timeouts (xs @ ys) = listen_timeouts xs @ listen_timeouts ys"
  by (induction xs rule: listen_timeouts.induct) auto

lemma hangup_loop_quiet:
  "utterances (events (snd (hangup_loop svc n idx w))) = utterances (events w)
   \<and> listen_timeouts (events (snd (hangup_loop svc n idx w))) = listen_timeouts (events w)
   \<and> userdata (snd (hangup_loop svc n idx w)) = userdata w"
proof (induction idx arbitrary: w)
  case Nil
  show ?case by (simp add: action_defs utterances_append listen_timeouts_append)
next
  case (Cons i rest)
  show ?case unfolding hangup_loop_step
    by (simp add: Cons.IH utterances_append listen_timeouts_append split: sum.splits)
qed

lemma on_start_greet_eq:
  "on_start_greet w =
     (Inr (), w\<lparr>events := events w @ [Log Info_AgentStarted, WaitForConnection, Log Info_AudioReady, Say greeting],
               userdata := (userdata w)\<lparr>interaction_count := interaction_count (userdata w) + 1\<rparr>\<rparr>)"
  by (simp add: on_start_greet_def action_defs)

lemma on_start_respond_eq:
  "on_start_respond eng w =
     (Inr (), w\<lparr>events := events w @ [Listen 10]
        @ (if listen eng 10 \<noteq> None \<and> response_text (the (listen eng 10)) \<noteq> []
           then [Log (Info_CustomerSaid (py_lower (response_text (the (listen eng 10)))))] else [])
        @ [Say (branch_reply (listen eng 10))]\<rparr>)"
  by (simp add: on_start_respond_def action_defs branch_reply_def Let_def)

lemma on_start_eq:
  "on_start eng svc w = hangup_call_with_retry svc 3
     (w\<lparr>userdata := (userdata w)\<lparr>interaction_count := interaction_count (userdata w) + 1\<rparr>,
        events := events w @ [Log Info_AgentStarted, WaitForConnection, Log Info_AudioReady, Say greeting]
        @ [Listen 10]
        @ (if listen eng 10 \<noteq> None \<and> response_text (the (listen eng 10)) \<noteq> []
           then [Log (Info_CustomerSaid (py_lower (response_text (the (listen eng 10)))))] else [])
        @ [Say (branch_reply (listen eng 10)), Sleep 2]\<rparr>)"
  by (simp add: on_start_def bind_action_def on_start_greet_eq on_start_respond_eq sleep_def emit_def)

lemma on_start_utterances:
  "utterances (events (snd (on_start eng svc w))) = utterances (events w) @ [greeting, branch_reply (listen eng 10)]"
  by (simp add: on_start_eq hangup_call_with_retry_def hangup_loop_quiet utterances_append)

lemma on_start_listens:
  "listen_timeouts (events (snd (on_start eng svc w))) = listen_timeouts (events w) @ [10]"
  by (simp add: on_start_eq hangup_call_with_retry_def hangup_loop_quiet listen_timeouts_append)

lemma on_start_count:
  "interaction_count (userdata (snd (on_start eng svc w))) = interaction_count (userdata w) + 1"
  by (simp add: on_start_eq hangup_call_with_retry_def hangup_loop_quiet)

lemma replies_distinct: "distinct [reply_yes, reply_no, reply_repeat, reply_no_response]"
  by (simp add: reply_yes_def reply_no_def reply_repeat_def reply_no_response_def rsquo_def)

lemma py_in_sublist: "py_in needle haystack = sublist needle haystack"
  by (induction haystack) (auto simp: sublist_Cons_right)

lemma py_in_lower_iff: "py_in kw (py_lower t) \<longleftrightarrow> (\<exists>u. sublist u t \<and> py_lower u = kw)"
proof
  assume "py_in kw (py_lower t)"
  then obtain ps ss where "map lower_char t = ps @ kw @ ss"
    by (auto simp: py_in_sublist py_lower_def sublist_def)
  then obtain a b c where "t = a @ b @ c" "map lower_char b = kw"
    by (auto simp: map_eq_append_conv append_eq_map_conv)
  then show "\<exists>u. sublist u t \<and> py_lower u = kw"
    by (auto simp: py_lower_def sublist_def)
next
  assume "\<exists>u. sublist u t \<and> py_lower u = kw"
  then obtain u ps ss where "t = ps @ u @ ss" "map lower_char u = kw"
    by (auto simp: py_lower_def sublist_def)
  then have "map lower_char t = map lower_char ps @ kw @ map lower_char ss" by simp
  then show "py_in kw (py_lower t)"
    unfolding py_in_sublist py_lower_def sublist_def by blast
qed


lemma parse_metadata_events:
  "snd (parse_metadata lib m w) = w
   \<or> snd (parse_metadata lib m w) = w\<lparr>events := events w @ [Log Warning_InvalidJSON]\<rparr>"
  by (cases m) (auto simp: parse_metadata_def action_defs split: sum.splits json_outcome.splits)

lemma parse_metadata_raises:
  "fst (parse_metadata lib m w) = Inl e \<Longrightarrow> is_Exception e"
  by (cases m) (auto simp: parse_metadata_def action_defs split: json_outcome.splits if_splits)

lemma lookup_phone_events: "snd (lookup_phone d w) = w"
  by (simp add: lookup_phone_def action_defs split: sum.splits)

lemma dict_get_raises: "dict_get d key = Inl e \<Longrightarrow> is_Exception e"
  by (cases d) auto

lemma lookup_phone_raises: "fst (lookup_phone d w) = Inl e \<Longrightarrow> is_Exception e"
  by (auto simp: lookup_phone_def action_defs dest: dict_get_raises split: sum.splits if_splits)

lemma normalize_dyn_raises: "normalize_phone_number_dyn v = Inl e \<Longrightarrow> is_Exception e"
  by (auto simp: normalize_phone_number_dyn_def split: if_splits pyval.splits)

lemma resolve_phone_raises:
  assumes "fst (resolve_phone lib ctx w) = Inl e"
  shows "is_Exception e"
proof -
  let ?w1 = "w\<lparr>events := events w @ [Log (Info_RawMetadata (job_metadata ctx))]\<rparr>"
  obtain r1 w2 where p: "parse_metadata lib (job_metadata ctx) ?w1 = (r1, w2)"
    by (cases "parse_metadata lib (job_metadata ctx) ?w1")
  show ?thesis
  proof (cases r1)
    case (Inl e1)
    with p assms have "e1 = e" by (simp add: resolve_phone_def action_defs)
    with p Inl parse_metadata_raises [of lib "job_metadata ctx" ?w1 e] show ?thesis by simp
  next
    case (Inr d)
    obtain r2 w3 where l: "lookup_phone d w2 = (r2, w3)" by (cases "lookup_phone d w2")
    show ?thesis
    proof (cases r2)
      case (Inl e2)
      with p Inr l assms have "e2 = e" by (simp add: resolve_phone_def action_defs)
      with l Inl lookup_phone_raises [of d w2 e] show ?thesis by simp
    next
      case (Inr v)
      with p \<open>r1 = Inr d\<close> l assms have "normalize_phone_number_dyn v = Inl e"
        by (simp add: resolve_phone_def action_defs)
      then show ?thesis by (rule normalize_dyn_raises)
    qed
  qed
qed

lemma resolve_phone_events:
  "snd (resolve_phone lib ctx w)
     = w\<lparr>events := events w @ [Log (Info_RawMetadata (job_metadata ctx))]\<rparr>
   \<or> snd (resolve_phone lib ctx w)
     = w\<lparr>events := events w @ [Log (Info_RawMetadata (job_metadata ctx)),
                                Log Warning_InvalidJSON]\<rparr>"
proof -
  let ?w1 = "w\<lparr>events := events w @ [Log (Info_RawMetadata (job_metadata ctx))]\<rparr>"
  obtain r1 w2 where p: "parse_metadata lib (job_metadata ctx) ?w1 = (r1, w2)"
    by (cases "parse_metadata lib (job_metadata ctx) ?w1")
  with parse_metadata_events [of lib "job_metadata ctx" ?w1]
  have w2: "w2 = ?w1 \<or> w2 = ?w1\<lparr>events := events ?w1 @ [Log Warning_InvalidJSON]\<rparr>" by simp
  have "snd (resolve_phone lib ctx w) = w2"
  proof (cases r1)
    case (Inl e)
    with p show ?thesis by (simp add: resolve_phone_def action_defs)
  next
    case (Inr d)
    obtain r2 w3 where l: "lookup_phone d w2 = (r2, w3)" by (cases "lookup_phone d w2")
    with lookup_phone_events [of d w2] have "w3 = w2" by simp
    with p Inr l show ?thesis by (simp add: resolve_phone_def action_defs split: sum.splits)
  qed
  with w2 show ?thesis by auto
qed

lemma entrypoint_invalid:
  assumes "\<forall>p. p \<noteq> [] \<longrightarrow> fst (resolve_phone lib ctx w) \<noteq> Inr (Some p)"
  shows "fst (entrypoint trunk lib ctx w) = Inr ()
     \<and> (\<exists>L. events (snd (entrypoint trunk lib ctx w)) = events w @ L
           \<and> (\<forall>ev\<in>set L. (\<exists>r. ev = Log r) \<or> ev = Shutdown))"
proof -
  obtain r w1 where rp: "resolve_phone lib ctx w = (r, w1)" by (cases "resolve_phone lib ctx w")
  with resolve_phone_events [of lib ctx w]
  obtain L1 where w1: "w1 = w\<lparr>events := events w @ L1\<rparr>" and L1: "\<forall>ev\<in>set L1. \<exists>r. ev = Log r"
    by auto
  show ?thesis
  proof (cases r)
    case (Inl e)
    with rp resolve_phone_raises [of lib ctx w e] have "is_Exception e" by simp
    with Inl rp have "entrypoint trunk lib ctx w =
        (Inr (), w1\<lparr>events := events w1 @ [Log (Exception_Unexpected e), Shutdown]\<rparr>)"
      by (simp add: entrypoint_def action_defs)
    with w1 L1 show ?thesis by auto
  next
    case (Inr po)
    with assms rp have "po = None \<or> the po = []" by (cases po) auto
    with rp Inr have "entrypoint trunk lib ctx w =
        (Inr (), w1\<lparr>events := events w1 @ [Log Error_InvalidPhone]\<rparr>)"
      by (auto simp add: entrypoint_def action_defs)
    with w1 L1 show ?thesis by auto
  qed
qed

lemma sip_requests_quiet: "\<forall>ev\<in>set L. (\<exists>r. ev = Log r) \<or> ev = Shutdown \<Longrightarrow> sip_requests L = []"
  by (induction L rule: sip_requests.induct) auto

section \<open>Properties of the retry loops\<close>




text \<open>The whole run of the hangup when the room deletion raises three times.\<close>

lemma hangup_failing_run:
  "hangup_call_with_retry svc_failing 3 example_world =
     (Inr (), example_world\<lparr>events :=
        [GetJobContext, DeleteRoom ''payment-room'',
         Log (Error_HangupAttempt 1 (OtherException ''room service unreachable'')), Sleep 1,
         GetJobContext, DeleteRoom ''payment-room'',
         Log (Error_HangupAttempt 2 (OtherException ''room service unreachable'')), Sleep 2,
         GetJobContext, DeleteRoom ''payment-room'',
         Log (Error_HangupAttempt 3 (OtherException ''room service unreachable'')),
         Log Error_HangupExhausted]\<rparr>)"
  by (simp add: hangup_call_with_retry_def py_range_3 action_defs svc_failing_def
      example_world_def)

text \<open>
  Claim C1, as the code has it. If every one of the \<open>max_retries\<close> invocations of the SIP
  participant-creation operation fails with a \<open>TwirpError\<close>, the dial step invokes the
  operation exactly \<open>max_retries\<close> times, sleeps \<open>2 ^ i\<close> after failed attempt \<open>i\<close> for
  every attempt but the last, and then raises the error with the message
  \<open>Failed to connect SIP participant after retries.\<close>; if an attempt succeeds after
  \<open>TwirpError\<close> failures only, it returns at once and no further attempt is made.
\<close>

theorem dial_retry_on_twirp_error:
  assumes "0 \<le> max_retries"
  shows
    "((\<forall>i\<in>set (py_range max_retries).
         fails_with is_TwirpError (create_sip_participant ctx i (sip_request trunk ctx phone)))
      \<longrightarrow> (let done = concat (map (failed_attempt trunk ctx phone max_retries)
                                  (py_range max_retries))
           in create_sip_participant_with_retry trunk ctx phone max_retries w =
                (Inl (RuntimeError ''Failed to connect SIP participant after retries.''),
                 w\<lparr>events := events w @ done\<rparr>)
              \<and> int (length (sip_requests done)) = max_retries
              \<and> sleeps done = map (\<lambda>i. 2 ^ nat i) (py_range (max_retries - 1))))
     \<and> (\<forall>k. 0 \<le> k \<and> k < max_retries
           \<and> (\<forall>i\<in>set (py_range k).
                 fails_with is_TwirpError
                   (create_sip_participant ctx i (sip_request trunk ctx phone)))
           \<and> create_sip_participant ctx k (sip_request trunk ctx phone) = Inr ()
         \<longrightarrow> (let done = concat (map (failed_attempt trunk ctx phone max_retries) (py_range k))
                       @ [Log (Info_Dialing phone (k + 1)),
                          CreateSIPParticipant (sip_request trunk ctx phone),
                          Log Info_SipConnected]
              in create_sip_participant_with_retry trunk ctx phone max_retries w =
                   (Inr (), w\<lparr>events := events w @ done\<rparr>)
                 \<and> int (length (sip_requests done)) = k + 1))"
proof (intro conjI impI allI)
  assume all: "\<forall>i\<in>set (py_range max_retries).
     fails_with is_TwirpError (create_sip_participant ctx i (sip_request trunk ctx phone))"
  have "length (py_range max_retries) = nat max_retries" by (simp add: py_range_def)
  with assms all show "let done = concat (map (failed_attempt trunk ctx phone max_retries)
                                  (py_range max_retries))
           in create_sip_participant_with_retry trunk ctx phone max_retries w =
                (Inl (RuntimeError ''Failed to connect SIP participant after retries.''),
                 w\<lparr>events := events w @ done\<rparr>)
              \<and> int (length (sip_requests done)) = max_retries
              \<and> sleeps done = map (\<lambda>i. 2 ^ nat i) (py_range (max_retries - 1))"
    by (simp add: Let_def create_sip_participant_with_retry_def dial_loop_all_fail
        sip_requests_failed sleeps_failed filter_py_range)
next
  fix k
  assume h: "0 \<le> k \<and> k < max_retries
           \<and> (\<forall>i\<in>set (py_range k).
                 fails_with is_TwirpError
                   (create_sip_participant ctx i (sip_request trunk ctx phone)))
           \<and> create_sip_participant ctx k (sip_request trunk ctx phone) = Inr ()"
  then have split: "py_range max_retries = py_range k @ k # map int [Suc (nat k)..<nat max_retries]"
    by (simp add: py_range_split)
  have len: "int (length (py_range k)) = k" using h by (simp add: py_range_def)
  from h show "let done = concat (map (failed_attempt trunk ctx phone max_retries) (py_range k))
                       @ [Log (Info_Dialing phone (k + 1)),
                          CreateSIPParticipant (sip_request trunk ctx phone),
                          Log Info_SipConnected]
              in create_sip_participant_with_retry trunk ctx phone max_retries w =
                   (Inr (), w\<lparr>events := events w @ done\<rparr>)
                 \<and> int (length (sip_requests done)) = k + 1"
    unfolding Let_def create_sip_participant_with_retry_def split
    by (simp add: dial_loop_prefix dial_loop_step sip_requests_append sip_requests_failed len
        del: dial_loop.simps)
qed

theorem dial_retry_on_twirp_error_witness:
  "(0::int) \<le> 3
   \<and> fails_with is_TwirpError
         (create_sip_participant ctx_busy 0 (sip_request ''ST_trunk'' ctx_busy ''+919876543210''))
   \<and> fails_with is_TwirpError
         (create_sip_participant ctx_busy 1 (sip_request ''ST_trunk'' ctx_busy ''+919876543210''))
   \<and> fails_with is_TwirpError
         (create_sip_participant ctx_busy 2 (sip_request ''ST_trunk'' ctx_busy ''+919876543210''))
   \<and> fst (create_sip_participant_with_retry ''ST_trunk'' ctx_busy ''+919876543210'' 3 example_world)
       = Inl (RuntimeError ''Failed to connect SIP participant after retries.'')
   \<and> length (sip_requests (events (snd
        (create_sip_participant_with_retry ''ST_trunk'' ctx_busy ''+919876543210'' 3 example_world))))
       = 3
   \<and> sleeps (events (snd
        (create_sip_participant_with_retry ''ST_trunk'' ctx_busy ''+919876543210'' 3 example_world)))
       = [1, 2]
   \<and> fails_with is_TwirpError
         (create_sip_participant ctx_answers_second 0
            (sip_request ''ST_trunk'' ctx_answers_second ''+919876543210''))
   \<and> create_sip_participant ctx_answers_second 1
        (sip_request ''ST_trunk'' ctx_answers_second ''+919876543210'') = Inr ()
   \<and> fst (create_sip_participant_with_retry ''ST_trunk'' ctx_answers_second ''+919876543210'' 3
        example_world) = Inr ()
   \<and> length (sip_requests (events (snd
        (create_sip_participant_with_retry ''ST_trunk'' ctx_answers_second ''+919876543210'' 3
           example_world)))) = 2"
proof -
  have h: "(0::int) \<le> 3" by simp
  have r1: "py_range 1 = [0]" by (simp add: py_range_def)
  have r2: "py_range 2 = [0, 1]" by (simp add: py_range_def upt_rec)
  note a = dial_retry_on_twirp_error [OF h, of ctx_busy "''ST_trunk''" "''+919876543210''"
      example_world, THEN conjunct1]
  note b = dial_retry_on_twirp_error [OF h, of ctx_answers_second "''ST_trunk''"
      "''+919876543210''" example_world, THEN conjunct2, rule_format, of 1]
  show ?thesis using a b
    by (simp add: Let_def py_range_3 r1 r2 ctx_busy_def ctx_answers_second_def ctx_with_def
        failed_attempt_def example_world_def sip_request_def)
qed

text \<open>
  The claim as the specification words it fails when a failure is not a \<open>TwirpError\<close>:
  here all three invocations fail, the third with another exception, and that exception is
  what the dial step raises.
\<close>

theorem dial_retry_counterexample:
  "isl (create_sip_participant ctx_crash_last 0
          (sip_request ''ST_trunk'' ctx_crash_last ''+919876543210''))
   \<and> isl (create_sip_participant ctx_crash_last 1
          (sip_request ''ST_trunk'' ctx_crash_last ''+919876543210''))
   \<and> isl (create_sip_participant ctx_crash_last 2
          (sip_request ''ST_trunk'' ctx_crash_last ''+919876543210''))
   \<and> length (sip_requests (events (snd
        (create_sip_participant_with_retry ''ST_trunk'' ctx_crash_last ''+919876543210'' 3
           example_world)))) = 3
   \<and> sleeps (events (snd
        (create_sip_participant_with_retry ''ST_trunk'' ctx_crash_last ''+919876543210'' 3
           example_world))) = [1, 2]
   \<and> fst (create_sip_participant_with_retry ''ST_trunk'' ctx_crash_last ''+919876543210'' 3
        example_world) = Inl (OtherException ''connection reset'')
   \<and> fst (create_sip_participant_with_retry ''ST_trunk'' ctx_crash_last ''+919876543210'' 3
        example_world) \<noteq> Inl (RuntimeError ''Failed to connect SIP participant after retries.'')"
  by (simp add: create_sip_participant_with_retry_def py_range_3 action_defs
      ctx_crash_last_def ctx_with_def example_world_def sip_request_def)

text \<open>
  Claim C10. In the dial loop only a \<open>TwirpError\<close> is caught and retried. If the SIP
  participant-creation operation raises any other exception at attempt \<open>k\<close>, after
  \<open>TwirpError\<close> failures at the attempts before it, that exception leaves
  \<open>create_sip_participant_with_retry\<close> at once: the call of attempt \<open>k\<close> is the last
  event, with no backoff and no further attempt after it, however many attempts remain.
\<close>

theorem dial_other_exception_propagates:
  assumes "0 \<le> k" and "k < max_retries"
    and "\<forall>i\<in>set (py_range k).
           fails_with is_TwirpError (create_sip_participant ctx i (sip_request trunk ctx phone))"
    and "create_sip_participant ctx k (sip_request trunk ctx phone) = Inl e"
    and "\<not> is_TwirpError e"
  shows
    "(let done = concat (map (failed_attempt trunk ctx phone max_retries) (py_range k))
                  @ [Log (Info_Dialing phone (k + 1)),
                     CreateSIPParticipant (sip_request trunk ctx phone)]
      in create_sip_participant_with_retry trunk ctx phone max_retries w =
           (Inl e, w\<lparr>events := events w @ done\<rparr>)
         \<and> int (length (sip_requests done)) = k + 1
         \<and> sleeps done = map (\<lambda>i. 2 ^ nat i) (py_range k))"
proof -
  from assms have split:
    "py_range max_retries = py_range k @ k # map int [Suc (nat k)..<nat max_retries]"
    by (simp add: py_range_split)
  have len: "int (length (py_range k)) = k" using assms(1) by (simp add: py_range_def)
  have "\<forall>i\<in>set (py_range k). i < max_retries - 1" using assms(2) by (auto simp: py_range_def)
  then have flt: "filter (\<lambda>i. i < max_retries - 1) (py_range k) = py_range k"
    by (simp add: filter_id_conv)
  from assms show ?thesis
    unfolding Let_def create_sip_participant_with_retry_def split
    by (simp add: dial_loop_prefix dial_loop_step sip_requests_append sip_requests_failed len
        sleeps_append sleeps_failed flt del: dial_loop.simps)
qed

theorem dial_other_exception_propagates_witness:
  "(0::int) \<le> 0 \<and> (0::int) < 3 \<and> py_range 0 = []
   \<and> create_sip_participant ctx_crash_first 0
        (sip_request ''ST_trunk'' ctx_crash_first ''+919876543210'')
       = Inl (OtherException ''connection reset'')
   \<and> \<not> is_TwirpError (OtherException ''connection reset'')
   \<and> create_sip_participant_with_retry ''ST_trunk'' ctx_crash_first ''+919876543210'' 3
        example_world =
       (Inl (OtherException ''connection reset''),
        example_world\<lparr>events :=
          [Log (Info_Dialing ''+919876543210'' 1),
           CreateSIPParticipant (sip_request ''ST_trunk'' ctx_crash_first ''+919876543210'')]\<rparr>)"
proof -
  have r0: "py_range 0 = []" by (simp add: py_range_def)
  have c: "create_sip_participant ctx_crash_first 0
        (sip_request ''ST_trunk'' ctx_crash_first ''+919876543210'')
       = Inl (OtherException ''connection reset'')"
    by (simp add: ctx_crash_first_def ctx_with_def)
  have "\<forall>i\<in>set (py_range 0). fails_with is_TwirpError
         (create_sip_participant ctx_crash_first i
            (sip_request ''ST_trunk'' ctx_crash_first ''+919876543210''))"
    by (simp add: r0)
  from dial_other_exception_propagates [OF _ _ this c, of 3 example_world]
  show ?thesis using c by (simp add: Let_def r0 example_world_def)
qed

section \<open>Properties of the entry point\<close>

text \<open>
  Claim C3. When the metadata of a job yields no phone number, or one that
  \<open>normalize_phone_number\<close> rejects, or the lookup itself fails, \<open>entrypoint\<close> returns
  normally and everything it did is to write log records and, after an exception, to shut
  the job down: no room connection, no SIP participant-creation call, no session.
\<close>

theorem entrypoint_aborts_without_phone:
  assumes "\<forall>p. p \<noteq> [] \<longrightarrow> fst (resolve_phone lib ctx w) \<noteq> Inr (Some p)"
  shows "fst (entrypoint trunk lib ctx w) = Inr ()
     \<and> (\<exists>new. events (snd (entrypoint trunk lib ctx w)) = events w @ new
           \<and> (\<forall>ev\<in>set new. (\<exists>r. ev = Log r) \<or> ev = Shutdown)
           \<and> Connect \<notin> set new \<and> sip_requests new = []
           \<and> CreateSession \<notin> set new \<and> StartSessionTask \<notin> set new)"
proof -
  from entrypoint_invalid [OF assms, of trunk] obtain new where
    r: "fst (entrypoint trunk lib ctx w) = Inr ()" and
    e: "events (snd (entrypoint trunk lib ctx w)) = events w @ new" and
    l: "\<forall>ev\<in>set new. (\<exists>r. ev = Log r) \<or> ev = Shutdown" by blast
  from l have "Connect \<notin> set new" "CreateSession \<notin> set new" "StartSessionTask \<notin> set new"
    by auto
  with r e l sip_requests_quiet [OF l] show ?thesis by blast
qed

lemma resolve_no_phone:
  "fst (resolve_phone example_libraries ctx_no_phone example_world) = Inr None"
  by (simp add: resolve_phone_def parse_metadata_def lookup_phone_def
      normalize_phone_number_dyn_def action_defs example_libraries_def ctx_no_phone_def
      ctx_with_def py_strip_def py_isspace_def)

lemma resolve_short_phone:
  "fst (resolve_phone example_libraries ctx_short_phone example_world) = Inr None"
  by (simp add: resolve_phone_def parse_metadata_def lookup_phone_def
      normalize_phone_number_dyn_def action_defs example_libraries_def ctx_short_phone_def
      ctx_with_def normalize_phone_number_def re_sub_strip_def is_digit_def
      fullmatch_10_digits_def startswith_def match_e164_def is_nonzero_digit_def)

lemma resolve_list_metadata:
  "fst (resolve_phone example_libraries ctx_list_metadata example_world) = Inl AttributeError"
  by (simp add: resolve_phone_def parse_metadata_def lookup_phone_def
      normalize_phone_number_dyn_def action_defs example_libraries_def ctx_list_metadata_def
      ctx_with_def py_strip_def py_isspace_def)

theorem entrypoint_aborts_without_phone_witness:
  "fst (resolve_phone example_libraries ctx_no_phone example_world) = Inr None
   \<and> fst (entrypoint ''ST_trunk'' example_libraries ctx_no_phone example_world) = Inr ()
   \<and> Connect \<notin> set (events (snd
        (entrypoint ''ST_trunk'' example_libraries ctx_no_phone example_world)))
   \<and> sip_requests (events (snd
        (entrypoint ''ST_trunk'' example_libraries ctx_no_phone example_world))) = []
   \<and> StartSessionTask \<notin> set (events (snd
        (entrypoint ''ST_trunk'' example_libraries ctx_no_phone example_world)))
   \<and> fst (resolve_phone example_libraries ctx_short_phone example_world) = Inr None
   \<and> fst (entrypoint ''ST_trunk'' example_libraries ctx_short_phone example_world) = Inr ()
   \<and> sip_requests (events (snd
        (entrypoint ''ST_trunk'' example_libraries ctx_short_phone example_world))) = []"
proof -
  have e: "events example_world = []" by (simp add: example_world_def)
  have h1: "\<forall>p. p \<noteq> [] \<longrightarrow>
      fst (resolve_phone example_libraries ctx_no_phone example_world) \<noteq> Inr (Some p)"
    by (simp add: resolve_no_phone)
  have h2: "\<forall>p. p \<noteq> [] \<longrightarrow>
      fst (resolve_phone example_libraries ctx_short_phone example_world) \<noteq> Inr (Some p)"
    by (simp add: resolve_short_phone)
  show ?thesis
    using entrypoint_aborts_without_phone [OF h1, of "''ST_trunk''"]
      entrypoint_aborts_without_phone [OF h2, of "''ST_trunk''"]
    by (auto simp: resolve_no_phone resolve_short_phone e)
qed

text \<open>The runs of the entry point on metadata without a phone number, and on a job whose
  phone number is accepted and whose call is answered at once.\<close>

lemma entrypoint_no_phone_run:
  "entrypoint ''ST_trunk'' example_libraries ctx_no_phone example_world =
     (Inr (), example_world\<lparr>events :=
        [Log (Info_RawMetadata (PStr ''{}'')), Log Error_InvalidPhone]\<rparr>)"
  by (simp add: entrypoint_def resolve_phone_def parse_metadata_def lookup_phone_def
      normalize_phone_number_dyn_def action_defs example_libraries_def ctx_no_phone_def
      ctx_with_def py_strip_def py_isspace_def example_world_def)

lemma entrypoint_list_metadata_run:
  "entrypoint ''ST_trunk'' example_libraries ctx_list_metadata example_world =
     (Inr (), example_world\<lparr>events :=
        [Log (Info_RawMetadata (PStr ''[1]'')), Log (Exception_Unexpected AttributeError),
         Shutdown]\<rparr>)"
  by (simp add: entrypoint_def resolve_phone_def parse_metadata_def lookup_phone_def
      normalize_phone_number_dyn_def action_defs example_libraries_def ctx_list_metadata_def
      ctx_with_def py_strip_def py_isspace_def example_world_def)

section \<open>Properties of the dialogue\<close>

text \<open>
  Claim C4. A non-empty transcribed reply, heard with the listen timeout of 10, is matched
  against the lower-cased text: containing \<open>yes\<close> gives the payment-amount reply;
  containing \<open>no\<close> but not \<open>yes\<close> gives the polite acknowledgement; containing neither
  gives the request to repeat; and no response gives the message of its own that nothing
  was heard. By \<open>py_in_lower_iff\<close> the test is a substring match that ignores case.
\<close>

theorem dialogue_branches:
  "(\<forall>r. listen eng 10 = Some r \<and> response_text r \<noteq> [] \<longrightarrow>
       (py_in ''yes'' (py_lower (response_text r)) \<longrightarrow>
          utterances (events (snd (on_start eng svc w)))
            = utterances (events w) @ [greeting, reply_yes])
     \<and> (py_in ''no'' (py_lower (response_text r))
          \<and> \<not> py_in ''yes'' (py_lower (response_text r)) \<longrightarrow>
          utterances (events (snd (on_start eng svc w)))
            = utterances (events w) @ [greeting, reply_no])
     \<and> (\<not> py_in ''yes'' (py_lower (response_text r))
          \<and> \<not> py_in ''no'' (py_lower (response_text r)) \<longrightarrow>
          utterances (events (snd (on_start eng svc w)))
            = utterances (events w) @ [greeting, reply_repeat]))
   \<and> (listen eng 10 = None \<longrightarrow>
        utterances (events (snd (on_start eng svc w)))
          = utterances (events w) @ [greeting, reply_no_response])
   \<and> listen_timeouts (events (snd (on_start eng svc w))) = listen_timeouts (events w) @ [10]
   \<and> reply_no_response \<notin> {reply_yes, reply_no, reply_repeat}"
  using replies_distinct
  by (auto simp: on_start_utterances on_start_listens branch_reply_def)

theorem dialogue_branches_witness:
  "listen (engine_hearing ''Yes, speaking'') 10 = Some \<lparr>response_text = ''Yes, speaking''\<rparr>
   \<and> py_in ''yes'' (py_lower ''Yes, speaking'')
   \<and> utterances (events (snd (on_start (engine_hearing ''Yes, speaking'') svc_ok example_world)))
       = [greeting, reply_yes]
   \<and> py_in ''no'' (py_lower ''NO, wrong number'') \<and> \<not> py_in ''yes'' (py_lower ''NO, wrong number'')
   \<and> utterances (events (snd (on_start (engine_hearing ''NO, wrong number'') svc_ok example_world)))
       = [greeting, reply_no]
   \<and> \<not> py_in ''yes'' (py_lower ''maybe later'') \<and> \<not> py_in ''no'' (py_lower ''maybe later'')
   \<and> utterances (events (snd (on_start (engine_hearing ''maybe later'') svc_ok example_world)))
       = [greeting, reply_repeat]
   \<and> listen engine_silent 10 = None
   \<and> utterances (events (snd (on_start engine_silent svc_ok example_world)))
       = [greeting, reply_no_response]"
  using dialogue_branches [of "engine_hearing ''Yes, speaking''" svc_ok example_world]
    dialogue_branches [of "engine_hearing ''NO, wrong number''" svc_ok example_world]
    dialogue_branches [of "engine_hearing ''maybe later''" svc_ok example_world]
    dialogue_branches [of engine_silent svc_ok example_world]
  by (simp add: engine_hearing_def engine_silent_def example_world_def py_lower_def
      lower_char_def)

text \<open>
  Claim C5, as the code has it. A transcribed response whose text is empty is treated like
  no response: the agent says that it did not hear a response, and does not ask for a
  repetition.
\<close>

theorem empty_text_is_no_response:
  assumes "listen eng 10 = Some r" and "response_text r = []"
  shows "utterances (events (snd (on_start eng svc w)))
           = utterances (events w) @ [greeting, reply_no_response]
         \<and> reply_no_response \<noteq> reply_repeat"
  using assms replies_distinct by (auto simp: on_start_utterances branch_reply_def)

theorem empty_text_is_no_response_witness:
  "listen (engine_hearing []) 10 = Some \<lparr>response_text = []\<rparr>
   \<and> response_text \<lparr>response_text = []\<rparr> = []
   \<and> utterances (events (snd (on_start (engine_hearing []) svc_failing example_world)))
       = [greeting, reply_no_response]"
  using empty_text_is_no_response [of "engine_hearing []" "\<lparr>response_text = []\<rparr>"
      svc_failing example_world]
  by (simp add: engine_hearing_def example_world_def)

text \<open>
  The claim as the specification words it fails: with a response whose text is empty the
  agent speaks the message of the no-response branch, which is not the request to repeat.
\<close>

theorem empty_text_counterexample:
  "listen (engine_hearing []) 10 = Some \<lparr>response_text = []\<rparr>
   \<and> utterances (events (snd (on_start (engine_hearing []) svc_ok example_world)))
       = [greeting, reply_no_response]
   \<and> utterances (events (snd (on_start (engine_hearing []) svc_ok example_world)))
       \<noteq> [greeting, reply_repeat]"
  using replies_distinct
  by (auto simp: on_start_utterances branch_reply_def engine_hearing_def example_world_def)

text \<open>
  Claim C9, as the code has it. \<open>interaction_count\<close> is incremented exactly once in a
  dialogue run, right after the greeting: from the initial 0 it is 1 after the greeting, and
  it is still 1 at the end of the run, after the second utterance (the branch reply).
\<close>

theorem interaction_count_once_per_run:
  "interaction_count (new_CallState p t) = 0
   \<and> utterances (events (snd (on_start_greet w))) = utterances (events w) @ [greeting]
   \<and> interaction_count (userdata (snd (on_start_greet w))) = interaction_count (userdata w) + 1
   \<and> length (utterances (events (snd (on_start eng svc w))))
       = length (utterances (events w)) + 2
   \<and> interaction_count (userdata (snd (on_start eng svc w)))
       = interaction_count (userdata w) + 1"
  by (simp add: new_CallState_def on_start_greet_eq utterances_append on_start_utterances
      on_start_count)

text \<open>
  The claim as the specification words it fails: in this run the agent speaks twice, the
  greeting and the reply to \<open>yes\<close>, and the count goes from 0 to 1, not to 2.
\<close>

theorem interaction_count_counterexample:
  "utterances (events (snd (on_start (engine_hearing ''Yes, speaking'') svc_ok example_world)))
     = [greeting, reply_yes]
   \<and> interaction_count (userdata example_world) = 0
   \<and> interaction_count (userdata
        (snd (on_start (engine_hearing ''Yes, speaking'') svc_ok example_world))) = 1
   \<and> interaction_count (userdata
        (snd (on_start (engine_hearing ''Yes, speaking'') svc_ok example_world))) \<noteq> 2"
  by (simp add: on_start_utterances on_start_count branch_reply_def engine_hearing_def
      example_world_def new_CallState_def py_lower_def lower_char_def)

text \<open>The whole run of the dialogue when the callee says yes and the hangup succeeds.\<close>

lemma on_start_yes_run:
  "on_start (engine_hearing ''Yes, speaking'') svc_ok example_world =
     (Inr (),
      \<lparr>events =
         [Log Info_AgentStarted, WaitForConnection, Log Info_AudioReady, Say greeting,
          Listen 10, Log (Info_CustomerSaid ''yes, speaking''), Say reply_yes, Sleep 2,
          GetJobContext, DeleteRoom ''payment-room'', Log Info_HungUp],
       userdata = (new_CallState ''+919876543210'' 0)\<lparr>interaction_count := 1\<rparr>\<rparr>)"
  by (simp add: on_start_eq branch_reply_def hangup_call_with_retry_def py_range_3 action_defs
      engine_hearing_def svc_ok_def example_world_def new_CallState_def py_lower_def
      lower_char_def)

end
